theory Spec2Isabelle
  imports Complex_Main
begin

section \<open>Errors\<close>

text \<open>
  Every \<^verbatim>\<open>raise\<close> of the handlers and every exception of the Python runtime that
  a handler can run into is a value of this type. A handler returns \<open>error + 'a\<close>,
  with \<open>Inl\<close> for the exception.
\<close>

datatype error =
    HTTP_404_NOT_FOUND
  | HTTP_403_FORBIDDEN
  | AttributeError
  | ValueError
  | IndexError
  | SerializationError
  | DatabaseError

section \<open>app/realtime.py: the connection manager\<close>

text \<open>
  A \<^verbatim>\<open>WebSocket\<close> is an opaque connection handle. The manager holds a Python
  \<^verbatim>\<open>Set[WebSocket]\<close>. \<open>connect\<close> is the method after
  \<^verbatim>\<open>await websocket.accept()\<close> has returned.
\<close>

type_synonym WebSocket = nat

record ConnectionManager =
  active_connections :: "WebSocket set"

definition ConnectionManager_init :: ConnectionManager where
  "ConnectionManager_init = \<lparr>active_connections = {}\<rparr>"

definition connect :: "ConnectionManager \<Rightarrow> WebSocket \<Rightarrow> ConnectionManager" where
  "connect self websocket =
     self\<lparr>active_connections := insert websocket (active_connections self)\<rparr>"

definition disconnect :: "ConnectionManager \<Rightarrow> WebSocket \<Rightarrow> ConnectionManager" where
  "disconnect self websocket =
     (if websocket \<in> active_connections self
      then self\<lparr>active_connections := active_connections self - {websocket}\<rparr>
      else self)"

text \<open>
  The send loop of \<^verbatim>\<open>broadcast\<close>. \<open>send_text c data\<close> is \<open>True\<close> when
  \<^verbatim>\<open>await connection.send_text(data)\<close> returns and \<open>False\<close> when it raises an
  \<^verbatim>\<open>Exception\<close>, which the loop catches. The loop carries the frames that were
  delivered so far and the list \<^verbatim>\<open>to_remove\<close>.
\<close>

type_synonym frame = "WebSocket \<times> string"

fun send_loop ::
  "(WebSocket \<Rightarrow> string \<Rightarrow> bool) \<Rightarrow> string \<Rightarrow> WebSocket list \<Rightarrow>
   frame list \<Rightarrow> WebSocket list \<Rightarrow> frame list \<times> WebSocket list" where
  "send_loop send_text data [] delivered to_remove = (delivered, to_remove)"
| "send_loop send_text data (connection # rest) delivered to_remove =
     (if send_text connection data
      then send_loop send_text data rest (delivered @ [(connection, data)]) to_remove
      else send_loop send_text data rest delivered (to_remove @ [connection]))"

text \<open>
  \<^verbatim>\<open>broadcast\<close>. Three things come from outside the repository and are parameters:
  \<open>list_of\<close>, the order in which \<^verbatim>\<open>list(self.active_connections)\<close> enumerates
  the set; \<open>json_dumps\<close>, the serializer \<^verbatim>\<open>json.dumps(message, default=str)\<close>,
  which may raise; and \<open>send_text\<close>. The result is the outcome of the call, the
  manager afterwards and the frames delivered, in order.
\<close>

definition broadcast ::
  "(WebSocket set \<Rightarrow> WebSocket list) \<Rightarrow> ('m \<Rightarrow> error + string) \<Rightarrow>
   (WebSocket \<Rightarrow> string \<Rightarrow> bool) \<Rightarrow> ConnectionManager \<Rightarrow> 'm \<Rightarrow>
   (error + unit) \<times> ConnectionManager \<times> frame list" where
  "broadcast list_of json_dumps send_text self message =
     (if active_connections self = {} then (Inr (), self, [])
      else case json_dumps message of
        Inl e \<Rightarrow> (Inl e, self, [])
      | Inr data \<Rightarrow>
          (case send_loop send_text data (list_of (active_connections self)) [] [] of
             (delivered, to_remove) \<Rightarrow> (Inr (), fold (\<lambda>ws m. disconnect m ws) to_remove self, delivered)))"

section \<open>app/routers/buses.py: the Haversine distance\<close>

text \<open>
  Python floats are modelled as real numbers, \<^verbatim>\<open>math.sin\<close>, \<^verbatim>\<open>math.cos\<close> and
  \<^verbatim>\<open>math.sqrt\<close> as the real functions. \<^verbatim>\<open>math.sqrt\<close> raises \<^verbatim>\<open>ValueError\<close>
  on a negative argument, and \<^verbatim>\<open>math.atan2(y, x)\<close> is the angle of the point
  \<open>(x, y)\<close> in \<open>(-\<pi>, \<pi>]\<close>, with \<open>atan2 0 0 = 0\<close>.
\<close>

definition radians :: "real \<Rightarrow> real" where
  "radians x = x * pi / 180"

definition math_sqrt :: "real \<Rightarrow> error + real" where
  "math_sqrt x = (if x < 0 then Inl ValueError else Inr (sqrt x))"

definition atan2 :: "real \<Rightarrow> real \<Rightarrow> real" where
  "atan2 y x =
     (if 0 < x then arctan (y / x)
      else if x < 0 then (if 0 \<le> y then arctan (y / x) + pi else arctan (y / x) - pi)
      else if 0 < y then pi / 2
      else if y < 0 then - (pi / 2)
      else 0)"

text \<open>
  The local \<^verbatim>\<open>a\<close> of \<^verbatim>\<open>calculate_distance\<close>, named so that the proofs can
  speak about it; \<open>calculate_distance\<close> below spells the expression out again, as
  the source does.
\<close>

definition haversine_a :: "real \<Rightarrow> real \<Rightarrow> real \<Rightarrow> real \<Rightarrow> real" where
  "haversine_a lat1 lon1 lat2 lon2 =
     (let dlat = radians (lat2 - lat1); dlon = radians (lon2 - lon1)
      in sin (dlat / 2) * sin (dlat / 2) +
         cos (radians lat1) * cos (radians lat2) * sin (dlon / 2) * sin (dlon / 2))"

definition calculate_distance :: "real \<Rightarrow> real \<Rightarrow> real \<Rightarrow> real \<Rightarrow> error + real" where
  "calculate_distance lat1 lon1 lat2 lon2 =
     (let R = 6371;
          dlat = radians (lat2 - lat1);
          dlon = radians (lon2 - lon1);
          a = sin (dlat / 2) * sin (dlat / 2) +
              cos (radians lat1) * cos (radians lat2) * sin (dlon / 2) * sin (dlon / 2)
      in case math_sqrt a of
           Inl e \<Rightarrow> Inl e
         | Inr sa \<Rightarrow>
             (case math_sqrt (1 - a) of
                Inl e \<Rightarrow> Inl e
              | Inr sb \<Rightarrow> Inr (R * (2 * atan2 sa sb))))"

section \<open>app/models.py and app/schemas.py: the data\<close>

text \<open>
  A table is the list of its rows in insertion order. A \<^verbatim>\<open>DateTime\<close> is an
  integer (microseconds), a \<^verbatim>\<open>Float\<close> a real. Of each model the columns that the
  handlers below read or write are kept. A nullable column is an \<open>option\<close>.
\<close>

type_synonym datetime = int

datatype CrowdLevel = LOW | MEDIUM | HIGH

record Bus =
  Bus_id :: int
  Bus_bus_number :: string

record Route =
  Route_id :: int
  Route_name :: string

record BusStop =
  BusStop_id :: int
  BusStop_name :: string

record RouteStop =
  RouteStop_route_id :: int
  RouteStop_stop_id :: int

record Driver =
  Driver_id :: int

record User =
  User_id :: int
  User_driver_profile :: "Driver option"

record BusAssignment =
  BusAssignment_id :: int
  BusAssignment_bus_id :: int
  BusAssignment_driver_id :: int
  BusAssignment_route_id :: int
  BusAssignment_start_time :: datetime
  BusAssignment_end_time :: "datetime option"
  BusAssignment_is_active :: bool

record BusTracking =
  BusTracking_id :: int
  BusTracking_bus_id :: int
  BusTracking_latitude :: real
  BusTracking_longitude :: real
  BusTracking_speed_kmh :: "real option"
  BusTracking_heading :: "real option"
  BusTracking_accuracy_meters :: "real option"
  BusTracking_crowd_level :: CrowdLevel
  BusTracking_current_stop_id :: "int option"
  BusTracking_next_stop_id :: "int option"
  BusTracking_eta_minutes :: "int option"
  BusTracking_is_on_route :: bool
  BusTracking_timestamp :: datetime

record Session =
  buses :: "Bus list"
  routes :: "Route list"
  bus_stops :: "BusStop list"
  route_stops :: "RouteStop list"
  bus_assignments :: "BusAssignment list"
  bus_tracking :: "BusTracking list"

text \<open>The request body of the location update. It declares no \<^verbatim>\<open>is_on_route\<close>.\<close>

record BusLocationUpdate =
  BusLocationUpdate_bus_id :: int
  BusLocationUpdate_latitude :: real
  BusLocationUpdate_longitude :: real
  BusLocationUpdate_speed_kmh :: "real option"
  BusLocationUpdate_heading :: "real option"
  BusLocationUpdate_accuracy_meters :: "real option"
  BusLocationUpdate_crowd_level :: "CrowdLevel option"
  BusLocationUpdate_current_stop_id :: "int option"
  BusLocationUpdate_next_stop_id :: "int option"
  BusLocationUpdate_eta_minutes :: "int option"

record BusStatusSummary =
  BusStatusSummary_bus_id :: int
  BusStatusSummary_bus_number :: string
  BusStatusSummary_route_name :: string
  BusStatusSummary_current_location :: "(real \<times> real) option"
  BusStatusSummary_next_stop :: "string option"
  BusStatusSummary_eta_minutes :: "int option"
  BusStatusSummary_crowd_level :: CrowdLevel
  BusStatusSummary_is_on_route :: bool
  BusStatusSummary_last_updated :: datetime

section \<open>app/routers/buses.py: the queries\<close>

text \<open>
  The query \<^verbatim>\<open>db.query(BusTracking).filter(BusTracking.bus_id == b)
  .order_by(BusTracking.timestamp.desc()).first()\<close>. The query orders by the
  timestamp alone; among rows of equal timestamp the database is free. Every order
  a database may answer with is a stable sort of some arrangement of the matching
  rows, so the arrangement \<open>scan\<close> is a parameter: a function that permutes its
  argument.
\<close>

definition latest_tracking_query ::
  "(BusTracking list \<Rightarrow> BusTracking list) \<Rightarrow> Session \<Rightarrow> int \<Rightarrow> BusTracking option" where
  "latest_tracking_query scan db bus_id =
     (case sort_key (\<lambda>t. - BusTracking_timestamp t)
             (scan (filter (\<lambda>t. BusTracking_bus_id t = bus_id) (bus_tracking db))) of
        [] \<Rightarrow> None
      | t # _ \<Rightarrow> Some t)"

text \<open>The relationships \<^verbatim>\<open>assignment.bus\<close> and \<^verbatim>\<open>latest_tracking.next_stop\<close>.\<close>

definition BusAssignment_bus :: "Session \<Rightarrow> BusAssignment \<Rightarrow> Bus option" where
  "BusAssignment_bus db assignment =
     find (\<lambda>b. Bus_id b = BusAssignment_bus_id assignment) (buses db)"

definition BusTracking_next_stop :: "Session \<Rightarrow> BusTracking \<Rightarrow> BusStop option" where
  "BusTracking_next_stop db t =
     (case BusTracking_next_stop_id t of
        None \<Rightarrow> None
      | Some i \<Rightarrow> find (\<lambda>s. BusStop_id s = i) (bus_stops db))"

definition route_name_of :: "Session \<Rightarrow> BusAssignment \<Rightarrow> string" where
  "route_name_of db assignment =
     (case find (\<lambda>r. Route_id r = BusAssignment_route_id assignment) (routes db) of
        Some route \<Rightarrow> Route_name route
      | None \<Rightarrow> ''Unknown Route'')"

definition active_assignments :: "Session \<Rightarrow> BusAssignment list" where
  "active_assignments db = filter BusAssignment_is_active (bus_assignments db)"

text \<open>
  The body of the loop of \<^verbatim>\<open>get_active_buses_status\<close>. Reading
  \<^verbatim>\<open>assignment.bus.id\<close> raises \<^verbatim>\<open>AttributeError\<close> when the assignment's bus row
  is missing.
\<close>

definition bus_status :: 
  "(BusTracking list \<Rightarrow> BusTracking list) \<Rightarrow> Session \<Rightarrow> BusAssignment \<Rightarrow>
   error + BusStatusSummary" where
  "bus_status scan db assignment =
     (let latest_tracking = latest_tracking_query scan db (BusAssignment_bus_id assignment);
          route_name = route_name_of db assignment
      in case BusAssignment_bus db assignment of
           None \<Rightarrow> Inl AttributeError
         | Some bus \<Rightarrow> Inr
            \<lparr>BusStatusSummary_bus_id = Bus_id bus,
             BusStatusSummary_bus_number = Bus_bus_number bus,
             BusStatusSummary_route_name = route_name,
             BusStatusSummary_current_location =
               (case latest_tracking of
                  Some t \<Rightarrow> Some (BusTracking_latitude t, BusTracking_longitude t)
                | None \<Rightarrow> None),
             BusStatusSummary_next_stop =
               (case latest_tracking of
                  Some t \<Rightarrow> map_option BusStop_name (BusTracking_next_stop db t)
                | None \<Rightarrow> None),
             BusStatusSummary_eta_minutes =
               (case latest_tracking of Some t \<Rightarrow> BusTracking_eta_minutes t | None \<Rightarrow> None),
             BusStatusSummary_crowd_level =
               (case latest_tracking of Some t \<Rightarrow> BusTracking_crowd_level t | None \<Rightarrow> MEDIUM),
             BusStatusSummary_is_on_route =
               (case latest_tracking of Some t \<Rightarrow> BusTracking_is_on_route t | None \<Rightarrow> True),
             BusStatusSummary_last_updated =
               (case latest_tracking of
                  Some t \<Rightarrow> BusTracking_timestamp t
                | None \<Rightarrow> BusAssignment_start_time assignment)\<rparr>)"

text \<open>
  A \<^verbatim>\<open>for\<close> loop that appends to a result list: the body answers with an
  exception, with \<open>None\<close> for \<^verbatim>\<open>continue\<close> (nothing appended), or with the item
  to append.
\<close>

fun for_append :: "('a \<Rightarrow> error + 'b option) \<Rightarrow> 'a list \<Rightarrow> 'b list \<Rightarrow> error + 'b list" where
  "for_append body [] acc = Inr acc"
| "for_append body (x # xs) acc =
     (case body x of
        Inl e \<Rightarrow> Inl e
      | Inr None \<Rightarrow> for_append body xs acc
      | Inr (Some y) \<Rightarrow> for_append body xs (acc @ [y]))"

definition get_active_buses_status ::
  "(BusTracking list \<Rightarrow> BusTracking list) \<Rightarrow> Session \<Rightarrow> error + BusStatusSummary list" where
  "get_active_buses_status scan db =
     for_append (\<lambda>assignment. map_sum id Some (bus_status scan db assignment))
       (active_assignments db) []"



section \<open>app/routers/buses.py: recording a location sample\<close>

text \<open>
  The message handed to \<^verbatim>\<open>manager.broadcast\<close> is a Python dictionary; its values
  are of this type.
\<close>

datatype pyval =
    PyNone
  | PyInt int
  | PyFloat real
  | PyStr string
  | PyDatetime datetime
  | PyDict "(string \<times> pyval) list"

text \<open>\<^verbatim>\<open>str\<close> of a member of the enumeration \<^verbatim>\<open>CrowdLevel(str, enum.Enum)\<close>.\<close>

fun str_CrowdLevel :: "CrowdLevel \<Rightarrow> string" where
  "str_CrowdLevel LOW = ''CrowdLevel.LOW''"
| "str_CrowdLevel MEDIUM = ''CrowdLevel.MEDIUM''"
| "str_CrowdLevel HIGH = ''CrowdLevel.HIGH''"

definition location_update_message :: "int \<Rightarrow> BusTracking \<Rightarrow> pyval" where
  "location_update_message bus_id tracking_data =
     PyDict
      [(''type'', PyStr ''location_update''),
       (''data'', PyDict
          [(''bus_id'', PyInt bus_id),
           (''latitude'', PyFloat (BusTracking_latitude tracking_data)),
           (''longitude'', PyFloat (BusTracking_longitude tracking_data)),
           (''eta_minutes'',
              (case BusTracking_eta_minutes tracking_data of
                 None \<Rightarrow> PyNone
               | Some n \<Rightarrow> PyInt n)),
           (''crowd_level'', PyStr (str_CrowdLevel (BusTracking_crowd_level tracking_data))),
           (''timestamp'', PyDatetime (BusTracking_timestamp tracking_data))])]"

text \<open>
  What the handler does to the world, in the order in which it does it: a row
  committed to \<^verbatim>\<open>bus_tracking\<close>, a call of \<^verbatim>\<open>manager.broadcast\<close> with a
  message, a frame delivered to an observer.
\<close>

datatype effect =
    Committed BusTracking
  | Broadcast pyval
  | Sent WebSocket string

fun is_Broadcast :: "effect \<Rightarrow> bool" where
  "is_Broadcast (Broadcast _) = True"
| "is_Broadcast _ = False"

record World =
  World_db :: Session
  World_manager :: ConnectionManager
  World_trace :: "effect list"

text \<open>
  What the database decides for one request: whether \<^verbatim>\<open>db.commit()\<close> and
  \<^verbatim>\<open>db.refresh(tracking_data)\<close> return or raise, the primary key it gives the new
  row, and its clock (\<^verbatim>\<open>server_default=func.now()\<close>).
\<close>

record Env =
  commit_ok :: bool
  refresh_ok :: bool
  new_id :: int
  now :: datetime

text \<open>
  \<^verbatim>\<open>location_data.is_on_route\<close>: the schema \<^verbatim>\<open>BusLocationUpdate\<close> declares no such
  field (and keeps no undeclared ones), so the read raises \<^verbatim>\<open>AttributeError\<close>.
\<close>

definition getattr_is_on_route :: "BusLocationUpdate \<Rightarrow> error + bool" where
  "getattr_is_on_route location_data = Inl AttributeError"

text \<open>
  The body of \<^verbatim>\<open>update_bus_location\<close>, with the outcome of the read of
  \<^verbatim>\<open>location_data.is_on_route\<close> as its first argument, so that what is proved of
  the lines after the read does not rest on the read's raising. A failed commit
  leaves the table as it was; a successful one appends the row.
\<close>

definition update_bus_location_body ::
  "error + bool \<Rightarrow> Env \<Rightarrow> (WebSocket set \<Rightarrow> WebSocket list) \<Rightarrow> (pyval \<Rightarrow> error + string) \<Rightarrow>
   (WebSocket \<Rightarrow> string \<Rightarrow> bool) \<Rightarrow> User \<Rightarrow> int \<Rightarrow> BusLocationUpdate \<Rightarrow> World \<Rightarrow>
   (error + BusTracking) \<times> World" where
  "update_bus_location_body is_on_route_attr env list_of json_dumps send_text
       current_user bus_id location_data w =
     (case find (\<lambda>b. Bus_id b = bus_id) (buses (World_db w)) of
        None \<Rightarrow> (Inl HTTP_404_NOT_FOUND, w)
      | Some bus \<Rightarrow>
     (case User_driver_profile current_user of
        None \<Rightarrow> (Inl AttributeError, w)
      | Some driver_profile \<Rightarrow>
     (case find (\<lambda>a. BusAssignment_bus_id a = bus_id \<and>
                      BusAssignment_driver_id a = Driver_id driver_profile \<and>
                      BusAssignment_is_active a)
             (bus_assignments (World_db w)) of
        None \<Rightarrow> (Inl HTTP_403_FORBIDDEN, w)
      | Some active_assignment \<Rightarrow>
     (case is_on_route_attr of
        Inl e \<Rightarrow> (Inl e, w)
      | Inr is_on_route \<Rightarrow>
          (let tracking_data =
                 \<lparr>BusTracking_id = new_id env,
                  BusTracking_bus_id = bus_id,
                  BusTracking_latitude = BusLocationUpdate_latitude location_data,
                  BusTracking_longitude = BusLocationUpdate_longitude location_data,
                  BusTracking_speed_kmh = BusLocationUpdate_speed_kmh location_data,
                  BusTracking_heading = BusLocationUpdate_heading location_data,
                  BusTracking_accuracy_meters = BusLocationUpdate_accuracy_meters location_data,
                  BusTracking_crowd_level =
                    (case BusLocationUpdate_crowd_level location_data of
                       Some c \<Rightarrow> c
                     | None \<Rightarrow> MEDIUM),
                  BusTracking_current_stop_id = BusLocationUpdate_current_stop_id location_data,
                  BusTracking_next_stop_id = BusLocationUpdate_next_stop_id location_data,
                  BusTracking_eta_minutes = BusLocationUpdate_eta_minutes location_data,
                  BusTracking_is_on_route = is_on_route,
                  BusTracking_timestamp = now env\<rparr>
           in if \<not> commit_ok env then (Inl DatabaseError, w)
              else
                (let w1 = w\<lparr>World_db := (World_db w)\<lparr>bus_tracking :=
                               bus_tracking (World_db w) @ [tracking_data]\<rparr>,
                             World_trace := World_trace w @ [Committed tracking_data]\<rparr>
                 in if \<not> refresh_ok env then (Inl DatabaseError, w1)
                    else
                      (let message = location_update_message bus_id tracking_data
                       in case broadcast list_of json_dumps send_text (World_manager w1) message of
                            (r, manager', delivered) \<Rightarrow>
                              (let w2 = w1\<lparr>World_manager := manager',
                                          World_trace := World_trace w1 @
                                            Broadcast message # map (\<lambda>(c, d). Sent c d) delivered\<rparr>
                               in case r of
                                    Inl e \<Rightarrow> (Inl e, w2)
                                  | Inr _ \<Rightarrow> (Inr tracking_data, w2)))))))))"

definition update_bus_location ::
  "Env \<Rightarrow> (WebSocket set \<Rightarrow> WebSocket list) \<Rightarrow> (pyval \<Rightarrow> error + string) \<Rightarrow>
   (WebSocket \<Rightarrow> string \<Rightarrow> bool) \<Rightarrow> User \<Rightarrow> int \<Rightarrow> BusLocationUpdate \<Rightarrow> World \<Rightarrow>
   (error + BusTracking) \<times> World" where
  "update_bus_location env list_of json_dumps send_text current_user bus_id location_data w =
     update_bus_location_body (getattr_is_on_route location_data) env list_of json_dumps send_text
       current_user bus_id location_data w"

section \<open>app/routers/routes.py: planning a route\<close>

record RoutePlanRequest =
  RoutePlanRequest_origin :: string
  RoutePlanRequest_destination :: string

record RouteOption =
  RouteOption_duration_minutes :: int
  RouteOption_transfers :: int
  RouteOption_buses :: "string list"
  RouteOption_walking_time_minutes :: int
  RouteOption_details :: string
  RouteOption_total_distance_km :: real

record RoutePlanResponse =
  RoutePlanResponse_options :: "RouteOption list"
  RoutePlanResponse_origin :: string
  RoutePlanResponse_destination :: string

text \<open>The two dictionaries the route finders return.\<close>

record DirectRoute =
  DirectRoute_bus_number :: string
  DirectRoute_route_id :: int

record TransferRoute =
  TransferRoute_buses :: "string list"
  TransferRoute_transfer_stop :: string

text \<open>Python's \<^verbatim>\<open>xs[i]\<close> for \<open>i \<ge> 0\<close>.\<close>

definition getitem :: "'a list \<Rightarrow> nat \<Rightarrow> error + 'a" where
  "getitem xs i = (if i < length xs then Inr (xs ! i) else Inl IndexError)"

text \<open>
  \<^verbatim>\<open>find_nearby_stops\<close>: the first three stops whose name matches the pattern. SQL's
  \<^verbatim>\<open>ILIKE\<close> is the parameter \<open>ilike name pattern\<close>.
\<close>

definition find_nearby_stops ::
  "(string \<Rightarrow> string \<Rightarrow> bool) \<Rightarrow> Session \<Rightarrow> string \<Rightarrow> BusStop list" where
  "find_nearby_stops ilike db location =
     take 3 (filter (\<lambda>s. ilike (BusStop_name s) (''%'' @ location @ ''%'')) (bus_stops db))"

text \<open>
  \<^verbatim>\<open>find_direct_route\<close>. \<open>first_of\<close> is \<^verbatim>\<open>list(common_routes)[0]\<close>, some element of
  the non-empty set. Reading \<^verbatim>\<open>assignment.bus.bus_number\<close> raises when the bus row
  is missing.
\<close>

definition find_direct_route ::
  "(int set \<Rightarrow> int) \<Rightarrow> Session \<Rightarrow> BusStop \<Rightarrow> BusStop \<Rightarrow> error + DirectRoute option" where
  "find_direct_route first_of db origin_stop destination_stop =
     (let origin_routes = map RouteStop_route_id
            (filter (\<lambda>rs. RouteStop_stop_id rs = BusStop_id origin_stop) (route_stops db));
          destination_routes = map RouteStop_route_id
            (filter (\<lambda>rs. RouteStop_stop_id rs = BusStop_id destination_stop) (route_stops db));
          common_routes = set origin_routes \<inter> set destination_routes
      in if common_routes \<noteq> {}
         then (let route_id = first_of common_routes
               in case find (\<lambda>a. BusAssignment_route_id a = route_id \<and> BusAssignment_is_active a)
                         (bus_assignments db) of
                    Some assignment \<Rightarrow>
                      (case BusAssignment_bus db assignment of
                         None \<Rightarrow> Inl AttributeError
                       | Some bus \<Rightarrow> Inr (Some
                           \<lparr>DirectRoute_bus_number = Bus_bus_number bus,
                            DirectRoute_route_id = route_id\<rparr>))
                  | None \<Rightarrow> Inr None)
         else Inr None)"

definition find_transfer_route :: "Session \<Rightarrow> BusStop \<Rightarrow> BusStop \<Rightarrow> TransferRoute option" where
  "find_transfer_route db origin_stop destination_stop =
     Some \<lparr>TransferRoute_buses = [''Bus A'', ''Bus B''],
           TransferRoute_transfer_stop = ''Central Station''\<rparr>"

text \<open>\<^verbatim>\<open>plan_route\<close>. A dictionary with keys is true, \<open>None\<close> is false.\<close>

definition plan_route ::
  "(string \<Rightarrow> string \<Rightarrow> bool) \<Rightarrow> (int set \<Rightarrow> int) \<Rightarrow> Session \<Rightarrow> RoutePlanRequest \<Rightarrow>
   error + RoutePlanResponse" where
  "plan_route ilike first_of db plan_request =
     (case (find_nearby_stops ilike db (RoutePlanRequest_origin plan_request),
            find_nearby_stops ilike db (RoutePlanRequest_destination plan_request)) of
        (origin_stop # _, destination_stop # _) \<Rightarrow>
          (case find_direct_route first_of db origin_stop destination_stop of
             Inl e \<Rightarrow> Inl e
           | Inr direct_route \<Rightarrow>
               (let options1 =
                      (case direct_route of
                         Some d \<Rightarrow>
                           [\<lparr>RouteOption_duration_minutes = 30,
                             RouteOption_transfers = 0,
                             RouteOption_buses = [DirectRoute_bus_number d],
                             RouteOption_walking_time_minutes = 5,
                             RouteOption_details =
                               ''Take '' @ DirectRoute_bus_number d @ '' from '' @
                               RoutePlanRequest_origin plan_request @ '' to '' @
                               RoutePlanRequest_destination plan_request,
                             RouteOption_total_distance_km = 10.5\<rparr>]
                       | None \<Rightarrow> [])
                in case (case find_transfer_route db origin_stop destination_stop of
                           Some t \<Rightarrow>
                             (case getitem (TransferRoute_buses t) 0 of
                                Inl e \<Rightarrow> Inl e
                              | Inr b0 \<Rightarrow>
                                  (case getitem (TransferRoute_buses t) 1 of
                                     Inl e \<Rightarrow> Inl e
                                   | Inr b1 \<Rightarrow> Inr (options1 @
                                       [\<lparr>RouteOption_duration_minutes = 45,
                                         RouteOption_transfers = 1,
                                         RouteOption_buses = TransferRoute_buses t,
                                         RouteOption_walking_time_minutes = 8,
                                         RouteOption_details =
                                           ''Take '' @ b0 @ '', transfer at '' @
                                           TransferRoute_transfer_stop t @ '', then '' @ b1,
                                         RouteOption_total_distance_km = 12.3\<rparr>])))
                         | None \<Rightarrow> Inr options1) of
                     Inl e \<Rightarrow> Inl e
                   | Inr options2 \<Rightarrow>
                       (let options3 =
                              (if length options2 < 2
                               then options2 @
                                 [\<lparr>RouteOption_duration_minutes = 55,
                                   RouteOption_transfers = 1,
                                   RouteOption_buses = [''Alternative Bus''],
                                   RouteOption_walking_time_minutes = 10,
                                   RouteOption_details =
                                     ''Alternative route with longer travel time'',
                                   RouteOption_total_distance_km = 15.2\<rparr>]
                               else options2)
                        in Inr \<lparr>RoutePlanResponse_options = options3,
                                RoutePlanResponse_origin = RoutePlanRequest_origin plan_request,
                                RoutePlanResponse_destination =
                                  RoutePlanRequest_destination plan_request\<rparr>)))
      | _ \<Rightarrow> Inl HTTP_404_NOT_FOUND)"

section \<open>Concrete data\<close>

text \<open>A small database: one bus, one route, one active assignment of driver \<open>7\<close>.\<close>

definition ex_bus :: Bus where
  "ex_bus = \<lparr>Bus_id = 1, Bus_bus_number = ''KA-01''\<rparr>"

definition ex_assignment :: BusAssignment where
  "ex_assignment =
     \<lparr>BusAssignment_id = 1, BusAssignment_bus_id = 1, BusAssignment_driver_id = 7,
      BusAssignment_route_id = 3, BusAssignment_start_time = 100,
      BusAssignment_end_time = None, BusAssignment_is_active = True\<rparr>"

definition ex_sample :: "int \<Rightarrow> datetime \<Rightarrow> BusTracking" where
  "ex_sample i ts =
     \<lparr>BusTracking_id = i, BusTracking_bus_id = 1,
      BusTracking_latitude = 0, BusTracking_longitude = 0,
      BusTracking_speed_kmh = None, BusTracking_heading = None,
      BusTracking_accuracy_meters = None, BusTracking_crowd_level = LOW,
      BusTracking_current_stop_id = None, BusTracking_next_stop_id = None,
      BusTracking_eta_minutes = Some 5, BusTracking_is_on_route = True,
      BusTracking_timestamp = ts\<rparr>"

definition ex_db :: "BusTracking list \<Rightarrow> Session" where
  "ex_db rows =
     \<lparr>buses = [ex_bus], routes = [\<lparr>Route_id = 3, Route_name = ''Ring''\<rparr>],
      bus_stops = [\<lparr>BusStop_id = 1, BusStop_name = ''Central Station''\<rparr>,
                   \<lparr>BusStop_id = 2, BusStop_name = ''Airport''\<rparr>],
      route_stops = [\<lparr>RouteStop_route_id = 3, RouteStop_stop_id = 1\<rparr>,
                     \<lparr>RouteStop_route_id = 3, RouteStop_stop_id = 2\<rparr>],
      bus_assignments = [ex_assignment], bus_tracking = rows\<rparr>"

text \<open>A request of driver \<open>7\<close>, and a world with two observers.\<close>

definition ex_user :: User where
  "ex_user = \<lparr>User_id = 9, User_driver_profile = Some \<lparr>Driver_id = 7\<rparr>\<rparr>"

definition ex_update :: "int \<Rightarrow> BusLocationUpdate" where
  "ex_update b =
     \<lparr>BusLocationUpdate_bus_id = b,
      BusLocationUpdate_latitude = 12, BusLocationUpdate_longitude = 77,
      BusLocationUpdate_speed_kmh = None, BusLocationUpdate_heading = None,
      BusLocationUpdate_accuracy_meters = None, BusLocationUpdate_crowd_level = None,
      BusLocationUpdate_current_stop_id = None, BusLocationUpdate_next_stop_id = None,
      BusLocationUpdate_eta_minutes = Some 4\<rparr>"

definition ex_env :: "bool \<Rightarrow> Env" where
  "ex_env ok = \<lparr>commit_ok = ok, refresh_ok = True, new_id = 1, now = 50\<rparr>"

definition ex_world :: World where
  "ex_world =
     \<lparr>World_db = ex_db [],
      World_manager = \<lparr>active_connections = {1, 2}\<rparr>,
      World_trace = []\<rparr>"

definition ex_row :: BusTracking where
  "ex_row =
     \<lparr>BusTracking_id = 1, BusTracking_bus_id = 1,
      BusTracking_latitude = 12, BusTracking_longitude = 77,
      BusTracking_speed_kmh = None, BusTracking_heading = None,
      BusTracking_accuracy_meters = None, BusTracking_crowd_level = MEDIUM,
      BusTracking_current_stop_id = None, BusTracking_next_stop_id = None,
      BusTracking_eta_minutes = Some 4, BusTracking_is_on_route = True,
      BusTracking_timestamp = 50\<rparr>"

section \<open>Properties of the connection manager\<close>

lemma send_loop_eq:
  "send_loop send_text data cs delivered to_remove =
     (delivered @ map (\<lambda>c. (c, data)) (filter (\<lambda>c. send_text c data) cs),
      to_remove @ filter (\<lambda>c. \<not> send_text c data) cs)"
  by (induction cs arbitrary: delivered to_remove) simp_all

lemma connect_all:
  "active_connections (fold (\<lambda>ws m. connect m ws) wss ConnectionManager_init) = set wss"
proof -
  have "active_connections (fold (\<lambda>ws m. connect m ws) wss self) =
      active_connections self \<union> set wss" for self
    by (induction wss arbitrary: self) (auto simp: connect_def)
  then show ?thesis by (simp add: ConnectionManager_init_def)
qed

lemma disconnect_idempotent: "disconnect (disconnect self ws) ws = disconnect self ws"
  by (simp add: disconnect_def)

lemma disconnect_eq:
  "disconnect self ws = self\<lparr>active_connections := active_connections self - {ws}\<rparr>"
  by (simp add: disconnect_def)

lemma fold_disconnect_eq:
  "fold (\<lambda>ws m. disconnect m ws) wss self =
     self\<lparr>active_connections := active_connections self - set wss\<rparr>"
proof (induction wss arbitrary: self)
  case Nil
  show ?case by simp
next
  case (Cons w wss)
  have sets: "active_connections self - {w} - set wss = active_connections self - set (w # wss)"
    by auto
  have "fold (\<lambda>ws m. disconnect m ws) (w # wss) self =
      fold (\<lambda>ws m. disconnect m ws) wss (disconnect self w)" by simp
  also have "\<dots> = (disconnect self w)\<lparr>active_connections :=
      active_connections (disconnect self w) - set wss\<rparr>" by (rule Cons.IH)
  also have "\<dots> = self\<lparr>active_connections := active_connections self - {w} - set wss\<rparr>"
    by (simp add: disconnect_eq)
  finally show ?case unfolding sets .
qed

lemma broadcast_sends:
  assumes "active_connections self \<noteq> {}" and "json_dumps message = Inr data"
  shows "broadcast list_of json_dumps send_text self message =
     (Inr (),
      self\<lparr>active_connections := active_connections self -
        set (filter (\<lambda>c. \<not> send_text c data) (list_of (active_connections self)))\<rparr>,
      map (\<lambda>c. (c, data)) (filter (\<lambda>c. send_text c data) (list_of (active_connections self))))"
  using assms by (simp add: broadcast_def send_loop_eq fold_disconnect_eq)

lemma count_list_map_frame:
  "count_list (map (\<lambda>c. (c, data)) cs) (c, data) = count_list cs c"
  by (induction cs) simp_all

lemma count_list_distinct:
  "distinct cs \<Longrightarrow> c \<in> set cs \<Longrightarrow> count_list cs c = 1"
  by (induction cs) (auto simp: count_list_0_iff)

text \<open>
  C1. One observer's send fails, all the others succeed: the call returns normally,
  every other observer receives the frame exactly once, the failed one receives
  nothing and is no longer registered afterwards, and nobody else is removed.
\<close>

theorem broadcast_isolates_failed_observer:
  assumes order: "set (list_of (active_connections self)) = active_connections self"
      "distinct (list_of (active_connections self))"
    and data: "json_dumps message = Inr data"
    and failed: "failed \<in> active_connections self" "\<not> send_text failed data"
    and others: "\<forall>c \<in> active_connections self. c \<noteq> failed \<longrightarrow> send_text c data"
  shows "\<exists>self' delivered.
      broadcast list_of json_dumps send_text self message = (Inr (), self', delivered) \<and>
      active_connections self' = active_connections self - {failed} \<and>
      failed \<notin> active_connections self' \<and>
      (\<forall>c \<in> active_connections self. c \<noteq> failed \<longrightarrow> count_list delivered (c, data) = 1) \<and>
      failed \<notin> fst ` set delivered"
proof -
  let ?cs = "list_of (active_connections self)"
  let ?ok = "filter (\<lambda>c. send_text c data) ?cs"
  have ne: "active_connections self \<noteq> {}" using failed by auto
  have bad: "set (filter (\<lambda>c. \<not> send_text c data) ?cs) = {failed}"
    using order failed others by auto
  have ok: "set ?ok = active_connections self - {failed}"
    using order failed others by auto
  have once: "count_list (map (\<lambda>c. (c, data)) ?ok) (c, data) = 1"
    if "c \<in> active_connections self" "c \<noteq> failed" for c
  proof -
    have "c \<in> set ?ok" using ok that by simp
    moreover have "distinct ?ok" using order by simp
    ultimately show ?thesis by (simp add: count_list_map_frame count_list_distinct)
  qed
  have none: "failed \<notin> fst ` set (map (\<lambda>c. (c, data)) ?ok)"
    using failed by (auto simp: image_iff)
  have "broadcast list_of json_dumps send_text self message =
      (Inr (), self\<lparr>active_connections := active_connections self -
         set (filter (\<lambda>c. \<not> send_text c data) ?cs)\<rparr>, map (\<lambda>c. (c, data)) ?ok)"
    using ne data by (rule broadcast_sends)
  then show ?thesis using bad once none by simp
qed

theorem broadcast_isolates_failed_observer_witness:
  "\<exists>self' delivered.
      broadcast (\<lambda>_. [1, 2, 3]) (\<lambda>_. Inr ''{}'') (\<lambda>c _. c \<noteq> 2)
        \<lparr>active_connections = {1, 2, 3}\<rparr> () = (Inr (), self', delivered) \<and>
      active_connections self' = {1, 2, 3} - {2} \<and>
      2 \<notin> active_connections self' \<and>
      count_list delivered (1, ''{}'') = 1 \<and> count_list delivered (3, ''{}'') = 1 \<and>
      2 \<notin> fst ` set delivered"
proof -
  let ?M = "\<lparr>active_connections = {1, 2, 3::nat}\<rparr>"
  have h1: "set ((\<lambda>_. [1, 2, 3]) (active_connections ?M)) = active_connections ?M" by auto
  have h2: "distinct ((\<lambda>_. [1, 2, 3::nat]) (active_connections ?M))" by simp
  have h3: "(\<lambda>_. Inr ''{}'') () = (Inr ''{}'' :: error + string)" by simp
  have h4: "2 \<in> active_connections ?M" by simp
  have h5: "\<not> (\<lambda>c _. c \<noteq> (2::nat)) 2 ''{}''" by simp
  have h6: "\<forall>c \<in> active_connections ?M. c \<noteq> 2 \<longrightarrow> (\<lambda>c _. c \<noteq> (2::nat)) c ''{}''" by simp
  from broadcast_isolates_failed_observer [of "\<lambda>_. [1, 2, 3]" ?M "\<lambda>_. Inr ''{}''" "()" "''{}''" 2
      "\<lambda>c _. c \<noteq> 2", OF h1 h2 h3 h4 h5 h6]
  obtain self' delivered where
    b: "broadcast (\<lambda>_. [1, 2, 3]) (\<lambda>_. Inr ''{}'') (\<lambda>c _. c \<noteq> 2) ?M () = (Inr (), self', delivered)"
    and a: "active_connections self' = active_connections ?M - {2}"
    and n: "2 \<notin> active_connections self'"
    and o: "\<forall>c \<in> active_connections ?M. c \<noteq> 2 \<longrightarrow> count_list delivered (c, ''{}'') = 1"
    and f: "2 \<notin> fst ` set delivered"
    by blast
  have "count_list delivered (1, ''{}'') = 1" "count_list delivered (3, ''{}'') = 1"
    using o by simp_all
  moreover have "active_connections self' = {1, 2, 3} - {2}" using a by simp
  ultimately show ?thesis using b n f by metis
qed

text \<open>
  C3. \<open>N\<close> observers, every send succeeds: the serializer's one result \<open>data\<close> is
  the payload of every frame, exactly \<open>N\<close> frames are delivered, one to each
  observer, and nobody is removed. With no observer at all the call returns before
  serializing and delivers nothing.
\<close>

theorem broadcast_delivers_to_all:
  assumes order: "set (list_of (active_connections self)) = active_connections self"
      "distinct (list_of (active_connections self))"
    and data: "active_connections self \<noteq> {} \<longrightarrow> json_dumps message = Inr data"
    and all_ok: "\<forall>c \<in> active_connections self. send_text c data"
  shows "\<exists>delivered.
      broadcast list_of json_dumps send_text self message = (Inr (), self, delivered) \<and>
      length delivered = card (active_connections self) \<and>
      (\<forall>c \<in> active_connections self. count_list delivered (c, data) = 1) \<and>
      (\<forall>f \<in> set delivered. snd f = data \<and> fst f \<in> active_connections self)"
proof (cases "active_connections self = {}")
  case True
  then show ?thesis by (simp add: broadcast_def)
next
  case False
  let ?cs = "list_of (active_connections self)"
  have d: "json_dumps message = Inr data" using False data by simp
  have keep: "filter (\<lambda>c. send_text c data) ?cs = ?cs"
    using order all_ok by (simp add: filter_id_conv)
  have drop: "filter (\<lambda>c. \<not> send_text c data) ?cs = []"
    using order all_ok by (simp add: filter_empty_conv)
  have len: "length ?cs = card (active_connections self)"
    using order distinct_card [of ?cs] by simp
  have once: "count_list (map (\<lambda>c. (c, data)) ?cs) (c, data) = 1"
    if "c \<in> active_connections self" for c
    using that order by (simp add: count_list_map_frame count_list_distinct)
  have frames: "\<forall>f \<in> set (map (\<lambda>c. (c, data)) ?cs). snd f = data \<and> fst f \<in> active_connections self"
    using order by auto
  have "broadcast list_of json_dumps send_text self message =
      (Inr (), self\<lparr>active_connections := active_connections self -
         set (filter (\<lambda>c. \<not> send_text c data) ?cs)\<rparr>,
       map (\<lambda>c. (c, data)) (filter (\<lambda>c. send_text c data) ?cs))"
    using False d by (rule broadcast_sends)
  then show ?thesis unfolding keep drop using len once frames by simp
qed

theorem broadcast_delivers_to_all_witness:
  "\<exists>delivered.
      broadcast (\<lambda>_. [3, 1, 2]) (\<lambda>_. Inr ''{}'') (\<lambda>_ _. True)
        \<lparr>active_connections = {1, 2, 3}\<rparr> () =
        (Inr (), \<lparr>active_connections = {1, 2, 3}\<rparr>, delivered) \<and>
      length delivered = 3 \<and>
      count_list delivered (1, ''{}'') = 1 \<and>
      count_list delivered (2, ''{}'') = 1 \<and>
      count_list delivered (3, ''{}'') = 1"
proof -
  let ?M = "\<lparr>active_connections = {1, 2, 3::nat}\<rparr>"
  have h1: "set ((\<lambda>_. [3, 1, 2]) (active_connections ?M)) = active_connections ?M" by auto
  have h2: "distinct ((\<lambda>_. [3, 1, 2::nat]) (active_connections ?M))" by simp
  have h3: "active_connections ?M \<noteq> {} \<longrightarrow> (\<lambda>_. Inr ''{}'') () = (Inr ''{}'' :: error + string)"
    by simp
  have h4: "\<forall>c \<in> active_connections ?M. (\<lambda>_ _. True) c ''{}''" by simp
  have c: "card (active_connections ?M) = 3" by simp
  from broadcast_delivers_to_all [of "\<lambda>_. [3, 1, 2]" ?M "\<lambda>_. Inr ''{}''" "()" "''{}''"
      "\<lambda>_ _. True", OF h1 h2 h3 h4]
  obtain delivered where
    b: "broadcast (\<lambda>_. [3, 1, 2]) (\<lambda>_. Inr ''{}'') (\<lambda>_ _. True) ?M () = (Inr (), ?M, delivered)"
    and l: "length delivered = card (active_connections ?M)"
    and o: "\<forall>c \<in> active_connections ?M. count_list delivered (c, ''{}'') = 1"
    by blast
  have "count_list delivered (1, ''{}'') = 1" "count_list delivered (2, ''{}'') = 1"
    "count_list delivered (3, ''{}'') = 1" using o by simp_all
  with b l c show ?thesis by metis
qed

section \<open>Properties of the Haversine distance\<close>

lemma radians_diff: "radians (x - y) = radians x - radians y"
  by (simp add: radians_def diff_divide_distrib left_diff_distrib)

lemma sin_sq_swap:
  fixes x y :: real
  shows "sin ((x - y) / 2) * sin ((x - y) / 2) = sin ((y - x) / 2) * sin ((y - x) / 2)"
proof -
  have e: "(x - y) / 2 = - ((y - x) / 2)" by (simp add: field_simps)
  have "sin ((x - y) / 2) = - sin ((y - x) / 2)" by (subst e) (rule sin_minus)
  then show ?thesis by simp
qed


lemma calculate_distance_alt:
  "calculate_distance lat1 lon1 lat2 lon2 =
     (case math_sqrt (haversine_a lat1 lon1 lat2 lon2) of
        Inl e \<Rightarrow> Inl e
      | Inr sa \<Rightarrow>
          (case math_sqrt (1 - haversine_a lat1 lon1 lat2 lon2) of
             Inl e \<Rightarrow> Inl e
           | Inr sb \<Rightarrow> Inr (6371 * (2 * atan2 sa sb))))"
  unfolding calculate_distance_def haversine_a_def Let_def by (rule refl)

lemma haversine_a_sym: "haversine_a lat1 lon1 lat2 lon2 = haversine_a lat2 lon2 lat1 lon1"
  unfolding haversine_a_def Let_def radians_diff
  using sin_sq_swap [of "radians lat2" "radians lat1"] sin_sq_swap [of "radians lon2" "radians lon1"]
  by (simp add: mult.assoc mult.left_commute)

lemma haversine_a_same: "haversine_a lat lon lat lon = 0"
  by (simp add: haversine_a_def radians_def)

text \<open>
  C8. The distance from a point to itself is \<open>0\<close>, and the distance does not depend
  on the order of the two points. Both calls return a value (or both raise).
\<close>

theorem calculate_distance_zero_and_symmetric:
  "calculate_distance lat lon lat lon = Inr 0 \<and>
   calculate_distance lat1 lon1 lat2 lon2 = calculate_distance lat2 lon2 lat1 lon1"
proof
  show "calculate_distance lat lon lat lon = Inr 0"
    by (simp add: calculate_distance_alt haversine_a_same math_sqrt_def atan2_def)
  show "calculate_distance lat1 lon1 lat2 lon2 = calculate_distance lat2 lon2 lat1 lon1"
    by (simp only: calculate_distance_alt haversine_a_sym [of lat1 lon1 lat2 lon2])
qed




section \<open>Properties of the queries\<close>

lemma sort_key_head:
  fixes f :: "'a \<Rightarrow> int"
  assumes "sort_key f xs = y # ys"
  shows "y \<in> set xs \<and> (\<forall>x \<in> set xs. f y \<le> f x)"
proof -
  have s: "set (y # ys) = set xs" using assms set_sort [of f xs] by simp
  have "sorted (map f (y # ys))" using assms sorted_sort_key [of f xs] by simp
  then have "\<forall>x \<in> set (y # ys). f y \<le> f x" by auto
  then show ?thesis using s by auto
qed

lemma sort_key_Nil_iff: "sort_key f xs = [] \<longleftrightarrow> xs = []"
  using length_sort [of f xs] by (metis length_0_conv)

lemma latest_tracking_query_None:
  assumes "\<forall>rows. set (scan rows) = set rows"
  shows "latest_tracking_query scan db b = None \<longleftrightarrow>
     (\<forall>u \<in> set (bus_tracking db). BusTracking_bus_id u \<noteq> b)"
proof -
  let ?m = "filter (\<lambda>t. BusTracking_bus_id t = b) (bus_tracking db)"
  have "latest_tracking_query scan db b = None \<longleftrightarrow>
      sort_key (\<lambda>t. - BusTracking_timestamp t) (scan ?m) = []"
    by (simp add: latest_tracking_query_def split: list.splits)
  also have "\<dots> \<longleftrightarrow> scan ?m = []" by (rule sort_key_Nil_iff)
  also have "\<dots> \<longleftrightarrow> set (scan ?m) = {}" by simp
  also have "\<dots> \<longleftrightarrow> set ?m = {}" using assms by simp
  also have "\<dots> \<longleftrightarrow> (\<forall>u \<in> set (bus_tracking db). BusTracking_bus_id u \<noteq> b)" by auto
  finally show ?thesis .
qed

lemma latest_tracking_query_Some:
  assumes scan: "\<forall>rows. set (scan rows) = set rows"
    and q: "latest_tracking_query scan db b = Some t"
  shows "t \<in> set (bus_tracking db) \<and> BusTracking_bus_id t = b \<and>
     (\<forall>u \<in> set (bus_tracking db). BusTracking_bus_id u = b \<longrightarrow>
        BusTracking_timestamp u \<le> BusTracking_timestamp t)"
proof -
  let ?m = "filter (\<lambda>t. BusTracking_bus_id t = b) (bus_tracking db)"
  obtain ys where "sort_key (\<lambda>t. - BusTracking_timestamp t) (scan ?m) = t # ys"
    using q by (auto simp: latest_tracking_query_def split: list.splits)
  from sort_key_head [OF this]
  have "t \<in> set (scan ?m)"
    and "\<forall>x \<in> set (scan ?m). - BusTracking_timestamp t \<le> - BusTracking_timestamp x" by simp_all
  then show ?thesis using scan by auto
qed

text \<open>
  C4 (as amended). Whatever order the database answers in, the latest-position query
  of a vehicle that has a sample returns a sample of that vehicle with the greatest
  timestamp; when one sample \<open>t2\<close> is strictly newer than every other sample of the
  vehicle, the query returns \<open>t2\<close>.
\<close>

theorem latest_tracking_is_newest:
  assumes scan: "\<forall>rows. set (scan rows) = set rows"
    and t2: "t2 \<in> set (bus_tracking db)" "BusTracking_bus_id t2 = b"
  shows "\<exists>t. latest_tracking_query scan db b = Some t \<and>
      t \<in> set (bus_tracking db) \<and> BusTracking_bus_id t = b \<and>
      (\<forall>u \<in> set (bus_tracking db). BusTracking_bus_id u = b \<longrightarrow>
         BusTracking_timestamp u \<le> BusTracking_timestamp t) \<and>
      ((\<forall>t1 \<in> set (bus_tracking db). BusTracking_bus_id t1 = b \<and> t1 \<noteq> t2 \<longrightarrow>
          BusTracking_timestamp t1 < BusTracking_timestamp t2) \<longrightarrow> t = t2)"
proof -
  have "latest_tracking_query scan db b \<noteq> None"
    using latest_tracking_query_None [OF scan, of db b] t2 by auto
  then obtain t where q: "latest_tracking_query scan db b = Some t" by auto
  note p = latest_tracking_query_Some [OF scan q]
  have "t = t2"
    if "\<forall>t1 \<in> set (bus_tracking db). BusTracking_bus_id t1 = b \<and> t1 \<noteq> t2 \<longrightarrow>
          BusTracking_timestamp t1 < BusTracking_timestamp t2"
  proof (rule ccontr)
    assume "t \<noteq> t2"
    then have "BusTracking_timestamp t < BusTracking_timestamp t2" using that p by auto
    moreover have "BusTracking_timestamp t2 \<le> BusTracking_timestamp t" using p t2 by auto
    ultimately show False by simp
  qed
  then show ?thesis using q p by auto
qed

lemma for_append_total:
  assumes "\<forall>x \<in> set xs. \<exists>r. body x = Inr r"
  shows "for_append body xs acc = Inr (acc @ List.map_filter (\<lambda>x. projr (body x)) xs)"
  using assms
proof (induction xs arbitrary: acc)
  case Nil
  show ?case by simp
next
  case (Cons x xs)
  then obtain r where r: "body x = Inr r" by auto
  show ?case
  proof (cases r)
    case None
    with r Cons show ?thesis by simp
  next
    case (Some y)
    with r Cons show ?thesis by simp
  qed
qed



lemma map_filter_all_Some:
  assumes "\<forall>x \<in> set xs. \<exists>y. f x = Some y"
  shows "List.map_filter f xs = map (\<lambda>x. the (f x)) xs"
  using assms by (induction xs) auto



lemma bus_status_fresh:
  assumes scan: "\<forall>rows. set (scan rows) = set rows"
    and none: "\<forall>u \<in> set (bus_tracking db). BusTracking_bus_id u \<noteq> BusAssignment_bus_id a"
    and bus: "BusAssignment_bus db a = Some bus"
  shows "bus_status scan db a = Inr
     \<lparr>BusStatusSummary_bus_id = Bus_id bus,
      BusStatusSummary_bus_number = Bus_bus_number bus,
      BusStatusSummary_route_name = route_name_of db a,
      BusStatusSummary_current_location = None,
      BusStatusSummary_next_stop = None,
      BusStatusSummary_eta_minutes = None,
      BusStatusSummary_crowd_level = MEDIUM,
      BusStatusSummary_is_on_route = True,
      BusStatusSummary_last_updated = BusAssignment_start_time a\<rparr>"
proof -
  have "latest_tracking_query scan db (BusAssignment_bus_id a) = None"
    using latest_tracking_query_None [OF scan] none by simp
  then show ?thesis using bus by (simp add: bus_status_def)
qed

text \<open>
  C6. When every active assignment has its bus row, the status query returns one
  summary per active assignment, in order, and the summary of an assignment whose
  vehicle has no sample has crowd level \<open>MEDIUM\<close>, is on route, was last updated
  at the assignment's start time and has no current location.
\<close>

theorem fresh_assignment_status_defaults:
  assumes scan: "\<forall>rows. set (scan rows) = set rows"
    and integrity: "\<forall>a \<in> set (active_assignments db). BusAssignment_bus db a \<noteq> None"
  shows "\<exists>statuses. get_active_buses_status scan db = Inr statuses \<and>
      length statuses = length (active_assignments db) \<and>
      (\<forall>i < length statuses.
         (\<forall>u \<in> set (bus_tracking db).
            BusTracking_bus_id u \<noteq> BusAssignment_bus_id (active_assignments db ! i)) \<longrightarrow>
         BusStatusSummary_crowd_level (statuses ! i) = MEDIUM \<and>
         BusStatusSummary_is_on_route (statuses ! i) \<and>
         BusStatusSummary_last_updated (statuses ! i) =
           BusAssignment_start_time (active_assignments db ! i) \<and>
         BusStatusSummary_current_location (statuses ! i) = None)"
proof -
  let ?as = "active_assignments db"
  let ?body = "\<lambda>assignment. map_sum id Some (bus_status scan db assignment)"
  have ok: "\<exists>s. bus_status scan db a = Inr s" if "a \<in> set ?as" for a
    using integrity that by (auto simp: bus_status_def Let_def)
  then have body: "\<forall>a \<in> set ?as. \<exists>y. projr (?body a) = Some y" by fastforce
  have "\<forall>a \<in> set ?as. \<exists>r. ?body a = Inr r" using ok by fastforce
  then have "get_active_buses_status scan db = Inr (List.map_filter (\<lambda>a. projr (?body a)) ?as)"
    unfolding get_active_buses_status_def using for_append_total [of ?as ?body "[]"] by simp
  also have "List.map_filter (\<lambda>a. projr (?body a)) ?as = map (\<lambda>a. the (projr (?body a))) ?as"
    using body by (rule map_filter_all_Some)
  finally have res: "get_active_buses_status scan db = Inr (map (\<lambda>a. the (projr (?body a))) ?as)" .
  have "BusStatusSummary_crowd_level (the (projr (?body a))) = MEDIUM \<and>
        BusStatusSummary_is_on_route (the (projr (?body a))) \<and>
        BusStatusSummary_last_updated (the (projr (?body a))) = BusAssignment_start_time a \<and>
        BusStatusSummary_current_location (the (projr (?body a))) = None"
    if a: "a \<in> set ?as"
      and none: "\<forall>u \<in> set (bus_tracking db). BusTracking_bus_id u \<noteq> BusAssignment_bus_id a" for a
  proof -
    obtain bus where "BusAssignment_bus db a = Some bus" using integrity a by auto
    from bus_status_fresh [OF scan none this] show ?thesis by simp
  qed
  then show ?thesis using res by simp
qed




section \<open>The queries on concrete data\<close>

lemmas ex_defs = ex_db_def ex_sample_def ex_assignment_def ex_bus_def

theorem latest_tracking_is_newest_witness:
  "latest_tracking_query rev (ex_db [ex_sample 1 10, ex_sample 2 20]) 1 = Some (ex_sample 2 20)"
proof -
  let ?db = "ex_db [ex_sample 1 10, ex_sample 2 20]"
  have h1: "\<forall>rows :: BusTracking list. set (rev rows) = set rows" by simp
  have h2: "ex_sample 2 20 \<in> set (bus_tracking ?db)" by (simp add: ex_db_def)
  have h3: "BusTracking_bus_id (ex_sample 2 20) = 1" by (simp add: ex_sample_def)
  have h4: "\<forall>t1 \<in> set (bus_tracking ?db). BusTracking_bus_id t1 = 1 \<and> t1 \<noteq> ex_sample 2 20 \<longrightarrow>
      BusTracking_timestamp t1 < BusTracking_timestamp (ex_sample 2 20)"
    by (simp add: ex_db_def ex_sample_def)
  from latest_tracking_is_newest [of rev "ex_sample 2 20" ?db 1, OF h1 h2 h3] h4
  show ?thesis by blast
qed

theorem latest_tracking_tie_counterexample:
  "latest_tracking_query id (ex_db [ex_sample 1 10, ex_sample 2 10]) 1 = Some (ex_sample 1 10) \<and>
   latest_tracking_query rev (ex_db [ex_sample 1 10, ex_sample 2 10]) 1 = Some (ex_sample 2 10) \<and>
   ex_sample 1 10 \<noteq> ex_sample 2 10 \<and>
   BusTracking_timestamp (ex_sample 1 10) = BusTracking_timestamp (ex_sample 2 10)"
  by (simp add: latest_tracking_query_def ex_db_def ex_sample_def)

theorem fresh_assignment_status_defaults_witness:
  "\<exists>statuses. get_active_buses_status id (ex_db []) = Inr statuses \<and>
      length statuses = 1 \<and>
      BusStatusSummary_crowd_level (statuses ! 0) = MEDIUM \<and>
      BusStatusSummary_is_on_route (statuses ! 0) \<and>
      BusStatusSummary_last_updated (statuses ! 0) = 100 \<and>
      BusStatusSummary_current_location (statuses ! 0) = None"
proof -
  have a: "active_assignments (ex_db []) = [ex_assignment]"
    by (simp add: active_assignments_def ex_db_def ex_assignment_def)
  have h1: "\<forall>rows :: BusTracking list. set (id rows) = set rows" by simp
  have h2: "\<forall>a \<in> set (active_assignments (ex_db [])). BusAssignment_bus (ex_db []) a \<noteq> None"
    unfolding a by (simp add: BusAssignment_bus_def ex_defs)
  from fresh_assignment_status_defaults [of id "ex_db []", OF h1 h2]
  obtain statuses where s: "get_active_buses_status id (ex_db []) = Inr statuses"
    "length statuses = length (active_assignments (ex_db []))"
    and d: "\<forall>i < length statuses.
         (\<forall>u \<in> set (bus_tracking (ex_db [])).
            BusTracking_bus_id u \<noteq> BusAssignment_bus_id (active_assignments (ex_db []) ! i)) \<longrightarrow>
         BusStatusSummary_crowd_level (statuses ! i) = MEDIUM \<and>
         BusStatusSummary_is_on_route (statuses ! i) \<and>
         BusStatusSummary_last_updated (statuses ! i) =
           BusAssignment_start_time (active_assignments (ex_db []) ! i) \<and>
         BusStatusSummary_current_location (statuses ! i) = None"
    by blast
  have l: "length statuses = 1" using s a by simp
  have n: "\<forall>u \<in> set (bus_tracking (ex_db [])).
            BusTracking_bus_id u \<noteq> BusAssignment_bus_id (active_assignments (ex_db []) ! 0)"
    by (simp add: ex_db_def)
  have st: "BusAssignment_start_time (active_assignments (ex_db []) ! 0) = 100"
    unfolding a by (simp add: ex_assignment_def)
  from d l n st have "BusStatusSummary_crowd_level (statuses ! 0) = MEDIUM \<and>
         BusStatusSummary_is_on_route (statuses ! 0) \<and>
         BusStatusSummary_last_updated (statuses ! 0) = 100 \<and>
         BusStatusSummary_current_location (statuses ! 0) = None" by auto
  with s l show ?thesis by blast
qed



section \<open>Properties of recording a location sample\<close>

lemma filter_is_Broadcast_Sent: "filter is_Broadcast (map (\<lambda>(c, d). Sent c d) fs) = []"
  by (induction fs) auto

text \<open>
  C2. Whatever the request, the database and the observers do, the handler adds to
  the trace either nothing (and then changes nothing at all), or the committed row
  alone, or the committed row followed by one call of \<^verbatim>\<open>broadcast\<close> with the
  \<^verbatim>\<open>location_update\<close> message of that very row and the frames it delivered. So a
  broadcast happens only after the commit of its sample has succeeded, a failed commit
  leaves the world untouched, and no sample is broadcast twice.
\<close>

theorem broadcast_only_after_commit:
  "\<exists>r w' tr.
     update_bus_location_body attr env list_of json_dumps send_text current_user bus_id
       location_data w = (r, w') \<and>
     World_trace w' = World_trace w @ tr \<and>
     length (filter is_Broadcast tr) \<le> 1 \<and>
     (\<not> commit_ok env \<longrightarrow> tr = [] \<and> w' = w) \<and>
     (tr = [] \<and> w' = w \<or>
      (\<exists>row rest.
         commit_ok env \<and> tr = Committed row # rest \<and>
         bus_tracking (World_db w') = bus_tracking (World_db w) @ [row] \<and>
         BusTracking_bus_id row = bus_id \<and>
         BusTracking_latitude row = BusLocationUpdate_latitude location_data \<and>
         BusTracking_longitude row = BusLocationUpdate_longitude location_data \<and>
         (rest = [] \<or>
          (\<exists>delivered.
             rest = Broadcast (location_update_message bus_id row) #
                    map (\<lambda>(c, d). Sent c d) delivered))))"
  unfolding update_bus_location_body_def Let_def
  by (auto split: option.splits sum.splits prod.splits simp: filter_is_Broadcast_Sent)


lemmas world_defs = ex_world_def ex_env_def ex_user_def ex_update_def ex_db_def ex_bus_def
  ex_assignment_def

lemma update_example:
  "update_bus_location_body (Inr True) (ex_env True) (\<lambda>_. [1, 2]) (\<lambda>_. Inr ''{}'')
      (\<lambda>c _. c \<noteq> 2) ex_user 1 (ex_update 1) ex_world =
   (Inr ex_row,
    \<lparr>World_db = ex_db [ex_row],
     World_manager = \<lparr>active_connections = {1}\<rparr>,
     World_trace = [Committed ex_row, Broadcast (location_update_message 1 ex_row), Sent 1 ''{}'']\<rparr>)"
proof -
  have s: "{Suc 0, 2} - {2} = {Suc 0}" by auto
  show ?thesis
    by (simp add: update_bus_location_body_def world_defs ex_row_def Let_def broadcast_def
        disconnect_def s)
qed

theorem broadcast_only_after_commit_witness:
  "\<exists>r w' tr.
     update_bus_location_body (Inr True) (ex_env True) (\<lambda>_. [1, 2]) (\<lambda>_. Inr ''{}'')
       (\<lambda>c _. c \<noteq> 2) ex_user 1 (ex_update 1) ex_world = (r, w') \<and>
     World_trace w' = World_trace ex_world @ tr \<and>
     length (filter is_Broadcast tr) \<le> 1 \<and>
     tr = [Committed ex_row, Broadcast (location_update_message 1 ex_row), Sent 1 ''{}''] \<and>
     commit_ok (ex_env True)"
proof -
  from broadcast_only_after_commit [of "Inr True" "ex_env True" "\<lambda>_. [1, 2]" "\<lambda>_. Inr ''{}''"
      "\<lambda>c _. c \<noteq> 2" ex_user 1 "ex_update 1" ex_world]
  obtain r w' tr where
    u: "update_bus_location_body (Inr True) (ex_env True) (\<lambda>_. [1, 2]) (\<lambda>_. Inr ''{}'')
       (\<lambda>c _. c \<noteq> 2) ex_user 1 (ex_update 1) ex_world = (r, w')"
    and t: "World_trace w' = World_trace ex_world @ tr"
    and l: "length (filter is_Broadcast tr) \<le> 1"
    by blast
  have "World_trace w' =
      [Committed ex_row, Broadcast (location_update_message 1 ex_row), Sent 1 ''{}'']"
    using u unfolding update_example by auto
  then have "tr = [Committed ex_row, Broadcast (location_update_message 1 ex_row), Sent 1 ''{}'']"
    using t by (simp add: ex_world_def)
  moreover have "commit_ok (ex_env True)" by (simp add: ex_env_def)
  ultimately show ?thesis using u t l by blast
qed

lemma update_example_commit_fails:
  "update_bus_location_body (Inr True) (ex_env False) (\<lambda>_. [1, 2]) (\<lambda>_. Inr ''{}'')
      (\<lambda>c _. c \<noteq> 2) ex_user 1 (ex_update 1) ex_world = (Inl DatabaseError, ex_world)"
  by (simp add: update_bus_location_body_def world_defs Let_def)

text \<open>
  With the schema as it is declared, an authorised request never gets as far as the
  commit: the read of \<^verbatim>\<open>location_data.is_on_route\<close> raises.
\<close>

lemma update_bus_location_attribute_error:
  assumes "find (\<lambda>b. Bus_id b = bus_id) (buses (World_db w)) = Some bus"
    and "User_driver_profile current_user = Some driver_profile"
    and "find (\<lambda>a. BusAssignment_bus_id a = bus_id \<and>
                    BusAssignment_driver_id a = Driver_id driver_profile \<and>
                    BusAssignment_is_active a) (bus_assignments (World_db w)) = Some a"
  shows "update_bus_location env list_of json_dumps send_text current_user bus_id location_data w =
     (Inl AttributeError, w)"
  using assms
  by (simp add: update_bus_location_def update_bus_location_body_def getattr_is_on_route_def)

text \<open>
  C5 (as amended). When the vehicle has no active assignment, the call fails and the
  world is exactly as before: no row is stored, no observer removed, nothing
  broadcast. The error is 404 when the bus does not exist, and 403 when the bus
  exists and the caller has a driver profile.
\<close>

theorem record_without_assignment_fails:
  assumes "\<forall>a \<in> set (bus_assignments (World_db w)).
      BusAssignment_bus_id a = bus_id \<longrightarrow> \<not> BusAssignment_is_active a"
  shows "\<exists>e. update_bus_location_body attr env list_of json_dumps send_text current_user bus_id
        location_data w = (Inl e, w) \<and>
      (find (\<lambda>b. Bus_id b = bus_id) (buses (World_db w)) = None \<longrightarrow> e = HTTP_404_NOT_FOUND) \<and>
      (find (\<lambda>b. Bus_id b = bus_id) (buses (World_db w)) \<noteq> None \<and>
       User_driver_profile current_user \<noteq> None \<longrightarrow> e = HTTP_403_FORBIDDEN)"
proof -
  have "find (\<lambda>a. BusAssignment_bus_id a = bus_id \<and> BusAssignment_driver_id a = d \<and>
        BusAssignment_is_active a) (bus_assignments (World_db w)) = None" for d
    using assms by (auto simp: find_None_iff)
  then show ?thesis
    by (auto simp: update_bus_location_body_def split: option.splits)
qed

theorem record_without_assignment_fails_witness:
  "update_bus_location_body (Inr True) (ex_env True) (\<lambda>_. [1, 2]) (\<lambda>_. Inr ''{}'')
      (\<lambda>_ _. True) (ex_user\<lparr>User_driver_profile := Some \<lparr>Driver_id = 8\<rparr>\<rparr>) 1 (ex_update 1)
      (ex_world\<lparr>World_db := (ex_db [])\<lparr>bus_assignments := []\<rparr>\<rparr>) =
   (Inl HTTP_403_FORBIDDEN, ex_world\<lparr>World_db := (ex_db [])\<lparr>bus_assignments := []\<rparr>\<rparr>)"
proof -
  let ?w = "ex_world\<lparr>World_db := (ex_db [])\<lparr>bus_assignments := []\<rparr>\<rparr>"
  let ?u = "ex_user\<lparr>User_driver_profile := Some \<lparr>Driver_id = 8\<rparr>\<rparr>"
  have h: "\<forall>a \<in> set (bus_assignments (World_db ?w)).
      BusAssignment_bus_id a = 1 \<longrightarrow> \<not> BusAssignment_is_active a" by simp
  have b: "find (\<lambda>b. Bus_id b = 1) (buses (World_db ?w)) \<noteq> None"
    by (simp add: world_defs)
  have p: "User_driver_profile ?u \<noteq> None" by simp
  from record_without_assignment_fails [of ?w 1 "Inr True" "ex_env True" "\<lambda>_. [1, 2]"
      "\<lambda>_. Inr ''{}''" "\<lambda>_ _. True" ?u "ex_update 1", OF h] b p
  show ?thesis by auto
qed

text \<open>
  For a bus that does not exist (and so has no active assignment) the handler answers
  404, not 403.
\<close>

theorem record_unknown_bus_counterexample:
  "bus_assignments (World_db ex_world) = [ex_assignment] \<and>
   BusAssignment_bus_id ex_assignment \<noteq> 5 \<and>
   update_bus_location (ex_env True) (\<lambda>_. [1, 2]) (\<lambda>_. Inr ''{}'') (\<lambda>_ _. True) ex_user 5
     (ex_update 5) ex_world = (Inl HTTP_404_NOT_FOUND, ex_world) \<and>
   HTTP_404_NOT_FOUND \<noteq> HTTP_403_FORBIDDEN"
  by (simp add: update_bus_location_def update_bus_location_body_def world_defs)

text \<open>
  C9. The \<^verbatim>\<open>bus_id\<close> field of the request body has no effect: changing it
  changes neither the outcome nor the world afterwards (the stored row, the registry,
  the broadcast message and the frames), for the handler as it is and for its body
  after any outcome of the read of \<^verbatim>\<open>is_on_route\<close>.
\<close>

theorem body_bus_id_has_no_effect:
  "update_bus_location_body attr env list_of json_dumps send_text current_user bus_id
     (location_data\<lparr>BusLocationUpdate_bus_id := b\<rparr>) w =
   update_bus_location_body attr env list_of json_dumps send_text current_user bus_id
     location_data w \<and>
   update_bus_location env list_of json_dumps send_text current_user bus_id
     (location_data\<lparr>BusLocationUpdate_bus_id := b\<rparr>) w =
   update_bus_location env list_of json_dumps send_text current_user bus_id location_data w"
  by (simp add: update_bus_location_def update_bus_location_body_def getattr_is_on_route_def
      cong: option.case_cong sum.case_cong)

theorem body_bus_id_has_no_effect_witness:
  "update_bus_location_body (Inr True) (ex_env True) (\<lambda>_. [1, 2]) (\<lambda>_. Inr ''{}'')
      (\<lambda>c _. c \<noteq> 2) ex_user 1 (ex_update 99) ex_world =
   update_bus_location_body (Inr True) (ex_env True) (\<lambda>_. [1, 2]) (\<lambda>_. Inr ''{}'')
      (\<lambda>c _. c \<noteq> 2) ex_user 1 (ex_update 1) ex_world"
proof -
  have "ex_update 99 = (ex_update 1)\<lparr>BusLocationUpdate_bus_id := 99\<rparr>"
    by (simp add: ex_update_def)
  then show ?thesis by (simp only: body_bus_id_has_no_effect)
qed

section \<open>Properties of route planning\<close>

lemma find_SomeD: "find P xs = Some x \<Longrightarrow> x \<in> set xs \<and> P x"
  by (induction xs) (auto split: if_splits)

lemma find_direct_route_Inl:
  assumes "find_direct_route first_of db origin_stop destination_stop = Inl e"
  shows "e = AttributeError \<and>
     (\<exists>a \<in> set (bus_assignments db). BusAssignment_is_active a \<and> BusAssignment_bus db a = None)"
  using assms
  by (auto simp: find_direct_route_def Let_def split: if_splits option.splits dest: find_SomeD)

lemma plan_route_after_direct:
  assumes "find_nearby_stops ilike db (RoutePlanRequest_origin plan_request) = origin_stop # os"
    and "find_nearby_stops ilike db (RoutePlanRequest_destination plan_request) = destination_stop # ds"
    and "find_direct_route first_of db origin_stop destination_stop = Inr direct_route"
  shows "\<exists>resp. plan_route ilike first_of db plan_request = Inr resp \<and>
     length (RoutePlanResponse_options resp) = 2 \<and>
     RoutePlanResponse_origin resp = RoutePlanRequest_origin plan_request \<and>
     RoutePlanResponse_destination resp = RoutePlanRequest_destination plan_request"
  using assms
  by (cases direct_route) (simp_all add: plan_route_def find_transfer_route_def getitem_def Let_def)

text \<open>
  C10. When both stop lookups find a stop, \<^verbatim>\<open>plan_route\<close> answers with exactly
  two options (so at least two, never none): the direct and the transfer route, or
  the transfer route and the filler. The only other outcome is the
  \<^verbatim>\<open>AttributeError\<close> of \<^verbatim>\<open>find_direct_route\<close> on an active assignment whose bus
  row is missing.
\<close>

theorem plan_route_two_options:
  assumes "find_nearby_stops ilike db (RoutePlanRequest_origin plan_request) \<noteq> []"
    and "find_nearby_stops ilike db (RoutePlanRequest_destination plan_request) \<noteq> []"
  shows "(\<exists>resp. plan_route ilike first_of db plan_request = Inr resp \<and>
            length (RoutePlanResponse_options resp) = 2) \<or>
         (plan_route ilike first_of db plan_request = Inl AttributeError \<and>
          (\<exists>a \<in> set (bus_assignments db).
             BusAssignment_is_active a \<and> BusAssignment_bus db a = None))"
proof -
  obtain origin_stop os where o:
    "find_nearby_stops ilike db (RoutePlanRequest_origin plan_request) = origin_stop # os"
    using assms(1) by (cases "find_nearby_stops ilike db (RoutePlanRequest_origin plan_request)") auto
  obtain destination_stop ds where d:
    "find_nearby_stops ilike db (RoutePlanRequest_destination plan_request) = destination_stop # ds"
    using assms(2)
    by (cases "find_nearby_stops ilike db (RoutePlanRequest_destination plan_request)") auto
  show ?thesis
  proof (cases "find_direct_route first_of db origin_stop destination_stop")
    case (Inl e)
    from find_direct_route_Inl [OF Inl]
    have e: "e = AttributeError"
      and a: "\<exists>a \<in> set (bus_assignments db). BusAssignment_is_active a \<and> BusAssignment_bus db a = None"
      by simp_all
    have "plan_route ilike first_of db plan_request = Inl AttributeError"
      using o d Inl e by (simp add: plan_route_def)
    with a show ?thesis by simp
  next
    case (Inr direct_route)
    from plan_route_after_direct [OF o d Inr] show ?thesis by blast
  qed
qed

lemmas route_defs = ex_db_def ex_bus_def ex_assignment_def

theorem plan_route_two_options_witness:
  "\<exists>resp. plan_route (\<lambda>_ _. True) (\<lambda>_. 3) (ex_db [])
       \<lparr>RoutePlanRequest_origin = ''Central'', RoutePlanRequest_destination = ''Airport''\<rparr> = Inr resp \<and>
     length (RoutePlanResponse_options resp) = 2"
proof -
  let ?req = "\<lparr>RoutePlanRequest_origin = ''Central'', RoutePlanRequest_destination = ''Airport''\<rparr>"
  have h1: "find_nearby_stops (\<lambda>_ _. True) (ex_db []) (RoutePlanRequest_origin ?req) \<noteq> []"
    by (simp add: find_nearby_stops_def ex_db_def)
  have h2: "find_nearby_stops (\<lambda>_ _. True) (ex_db []) (RoutePlanRequest_destination ?req) \<noteq> []"
    by (simp add: find_nearby_stops_def ex_db_def)
  have ok: "\<not> (\<exists>a \<in> set (bus_assignments (ex_db [])).
      BusAssignment_is_active a \<and> BusAssignment_bus (ex_db []) a = None)"
    by (simp add: BusAssignment_bus_def route_defs)
  from plan_route_two_options [of "\<lambda>_ _. True" "ex_db []" ?req "\<lambda>_. 3", OF h1 h2] ok
  show ?thesis by blast
qed

lemma plan_route_example:
  "map RouteOption_buses (RoutePlanResponse_options (projr (plan_route (\<lambda>_ _. True) (\<lambda>_. 3) (ex_db [])
       \<lparr>RoutePlanRequest_origin = ''Central'', RoutePlanRequest_destination = ''Airport''\<rparr>))) =
   [[''KA-01''], [''Bus A'', ''Bus B'']]"
  by (simp add: plan_route_def find_nearby_stops_def find_direct_route_def find_transfer_route_def
      getitem_def BusAssignment_bus_def Let_def route_defs)

end
